theory Spec2Isabelle
  imports Complex_Main "HOL-Library.Sublist"
begin

section \<open>Data model of \<open>scripts/hybrid_rag.py\<close>\<close>

text \<open>
  The class \<open>FastHybridRAG\<close> routes a question either to a pre-built Cypher template
  (chosen by embedding similarity) or to a query generated by a language model.
  The embedding below follows the methods \<open>_setup_embeddings\<close>, \<open>find_best_template\<close>,
  \<open>execute_cypher\<close>, \<open>query\<close> and \<open>_format_results\<close> of that class.

  Conventions.
  \<^item> Similarity scores and thresholds are floats in the source; they are modelled as
    \<open>real\<close>, so the order on them is total (no NaN).
  \<^item> A Python \<open>dict\<close> is an association list in insertion order; looking a key up is
    \<open>map_of\<close>.
  \<^item> An exception is a value: \<open>Inl\<close> of a sum type. An exception raised by an external
    service is represented by its message, the text of \<open>str(e)\<close>.
  \<^item> The calls to \<open>print\<close> and the unused \<open>start_time\<close> are left out.
\<close>

datatype py_error = ValueError | IndexError | KeyError string

text \<open>Values of a result row: the primitives a Cypher \<open>RETURN\<close> yields.\<close>

datatype pyval = PNone | PStr string | PInt int | PBool bool

type_synonym row = "(string \<times> pyval) list"

text \<open>One entry of \<open>self.query_templates\<close>: the dict with keys \<open>cypher\<close> and \<open>description\<close>.\<close>

record template =
  cypher :: string
  description :: string

text \<open>
  Library functions the class calls and that are not part of the repository:
  the cosine of two embedding vectors (one entry of sklearn's \<open>cosine_similarity\<close>
  matrix), Python's \<open>repr\<close> of a string, the format \<open>:.3f\<close> of a float and
  \<open>str.strip\<close>, which removes the whitespace (ASCII or not) at both ends of a string.
\<close>

record 'v library =
  cosine :: "'v \<Rightarrow> 'v \<Rightarrow> real"
  repr_str :: "string \<Rightarrow> string"
  format_3f :: "real \<Rightarrow> string"
  str_strip :: "string \<Rightarrow> string"

text \<open>
  The attributes of a \<open>FastHybridRAG\<close> object. \<open>embedding_model\<close> is the encoding of one
  text; \<open>graph\<close> is the outcome of opening a session and running a query on it (the rows,
  or the message of the exception raised); \<open>llm\<close> is \<open>None\<close> when the connection to
  Ollama failed, and otherwise the outcome of \<open>invoke\<close> on a prompt.
\<close>

record 'v FastHybridRAG =
  embedding_model :: "string \<Rightarrow> 'v"
  graph :: "string \<Rightarrow> string + row list"
  llm :: "(string \<Rightarrow> string + string) option"
  neo4j_available :: bool
  query_templates :: "(string \<times> template) list"
  template_keys :: "string list"
  template_embeddings :: "'v list"

text \<open>The calls a request makes to the outside: the graph store and the language model.\<close>

datatype event = Store_run string | Llm_invoke string

text \<open>A value of the dict that \<open>query\<close> returns.\<close>

datatype rval = VNone | VStr string | VNum real | VRows "row list"

type_synonym response = "(string \<times> rval) list"

section \<open>Python and numpy primitives\<close>

text \<open>
  \<open>np.argmax\<close> on a one-dimensional array: the index of the maximum, the first one
  when the maximum occurs several times; \<open>ValueError\<close> on an empty array. The scan keeps
  the index and value of the best element seen so far and replaces them only by a
  strictly greater value.
\<close>

fun argmax_scan :: "real list \<Rightarrow> nat \<Rightarrow> nat \<Rightarrow> real \<Rightarrow> nat" where
  "argmax_scan [] i best_i best_v = best_i"
| "argmax_scan (x # xs) i best_i best_v =
     (if best_v < x then argmax_scan xs (Suc i) i x
      else argmax_scan xs (Suc i) best_i best_v)"

definition np_argmax :: "real list \<Rightarrow> py_error + nat" where
  "np_argmax xs = (case xs of [] \<Rightarrow> Inl ValueError | x # rest \<Rightarrow> Inr (argmax_scan rest 1 0 x))"

text \<open>\<open>sep.join(xs)\<close>.\<close>

fun py_join :: "string \<Rightarrow> string list \<Rightarrow> string" where
  "py_join sep [] = []"
| "py_join sep [x] = x"
| "py_join sep (x # y # ys) = x @ sep @ py_join sep (y # ys)"

text \<open>\<open>str(n)\<close> for an integer: decimal digits, with a minus sign when negative.\<close>

definition digit_char :: "nat \<Rightarrow> char" where
  "digit_char d = ''0123456789'' ! d"

fun str_nat :: "nat \<Rightarrow> string" where
  "str_nat n = (if n < 10 then [digit_char n] else str_nat (n div 10) @ [digit_char (n mod 10)])"

declare str_nat.simps [simp del]

definition str_int :: "int \<Rightarrow> string" where
  "str_int i = (if i < 0 then CHR ''-'' # str_nat (nat (- i)) else str_nat (nat i))"

text \<open>\<open>str(v)\<close>, as an f-string and \<open>str\<close> render a value.\<close>

fun py_str :: "pyval \<Rightarrow> string" where
  "py_str PNone = ''None''"
| "py_str (PStr s) = s"
| "py_str (PInt i) = str_int i"
| "py_str (PBool b) = (if b then ''True'' else ''False'')"

text \<open>\<open>repr\<close> of a value, of a dict and of a list of dicts, as an f-string renders \<open>{results}\<close>.\<close>

fun repr_val :: "'v library \<Rightarrow> pyval \<Rightarrow> string" where
  "repr_val lib (PStr s) = repr_str lib s"
| "repr_val lib v = py_str v"

definition repr_dict :: "'v library \<Rightarrow> row \<Rightarrow> string" where
  "repr_dict lib d =
     ''{'' @ py_join '', '' (map (\<lambda>(k, v). repr_str lib k @ '': '' @ repr_val lib v) d) @ ''}''"

definition repr_rows :: "'v library \<Rightarrow> row list \<Rightarrow> string" where
  "repr_rows lib rs = ''['' @ py_join '', '' (map (repr_dict lib) rs) @ '']''"

text \<open>\<open>d[k]\<close>: the value, or \<open>KeyError\<close>.\<close>

definition dict_get :: "(string \<times> 'a) list \<Rightarrow> string \<Rightarrow> py_error + 'a" where
  "dict_get d k = (case map_of d k of None \<Rightarrow> Inl (KeyError k) | Some v \<Rightarrow> Inr v)"

text \<open>\<open>xs[i]\<close> for an index that is not negative: the element, or \<open>IndexError\<close>.\<close>

definition list_get :: "'a list \<Rightarrow> nat \<Rightarrow> py_error + 'a" where
  "list_get xs i = (if i < length xs then Inr (xs ! i) else Inl IndexError)"

section \<open>The methods of \<open>FastHybridRAG\<close>\<close>

text \<open>
  \<open>_setup_embeddings\<close>: the keys in catalog order, and for each key the embedding of
  \<open>key + " " + self.query_templates[key]["description"]\<close>. An exception in the body
  ends the process (\<open>sys.exit(1)\<close>): the result is then \<open>None\<close>.
\<close>

fun template_texts_of :: "(string \<times> template) list \<Rightarrow> string list \<Rightarrow> py_error + string list" where
  "template_texts_of qt [] = Inr []"
| "template_texts_of qt (key # keys) =
     (case dict_get qt key of
        Inl e \<Rightarrow> Inl e
      | Inr t \<Rightarrow>
          (case template_texts_of qt keys of
             Inl e \<Rightarrow> Inl e
           | Inr texts \<Rightarrow> Inr ((key @ '' '' @ description t) # texts)))"

definition setup_embeddings :: "'v FastHybridRAG \<Rightarrow> 'v FastHybridRAG option" where
  "setup_embeddings self =
     (let keys = map fst (query_templates self) in
      case template_texts_of (query_templates self) keys of
        Inl e \<Rightarrow> None
      | Inr template_texts \<Rightarrow>
          Some (self\<lparr>template_keys := keys,
                     template_embeddings := map (embedding_model self) template_texts\<rparr>))"

text \<open>
  \<open>find_best_template(question, threshold)\<close>. The row \<open>similarities\<close> is
  \<open>cosine_similarity(question_embedding, self.template_embeddings)[0]\<close>.
\<close>

definition similarities_of :: "'v library \<Rightarrow> 'v FastHybridRAG \<Rightarrow> string \<Rightarrow> real list" where
  "similarities_of lib self question =
     map (cosine lib (embedding_model self question)) (template_embeddings self)"

definition find_best_template ::
  "'v library \<Rightarrow> 'v FastHybridRAG \<Rightarrow> string \<Rightarrow> real \<Rightarrow> py_error + (string \<times> real \<times> template)" where
  "find_best_template lib self question threshold =
     (let similarities = similarities_of lib self question in
      case np_argmax similarities of
        Inl e \<Rightarrow> Inl e
      | Inr best_idx \<Rightarrow>
          (case list_get similarities best_idx of
             Inl e \<Rightarrow> Inl e
           | Inr best_similarity \<Rightarrow>
               (case list_get (template_keys self) best_idx of
                  Inl e \<Rightarrow> Inl e
                | Inr best_template_key \<Rightarrow>
                    (case dict_get (query_templates self) best_template_key of
                       Inl e \<Rightarrow> Inl e
                     | Inr best_template \<Rightarrow>
                         Inr (best_template_key, best_similarity, best_template)))))"

text \<open>
  \<open>execute_cypher(cypher)\<close>: the rows, or a single error row. The store is called only
  when \<open>neo4j_available\<close> is set, and then once.
\<close>

definition execute_cypher :: "'v FastHybridRAG \<Rightarrow> string \<Rightarrow> row list \<times> event list" where
  "execute_cypher self cy =
     (if \<not> neo4j_available self then ([[(''error'', PStr ''Neo4j not available'')]], [])
      else (case graph self cy of
              Inr records \<Rightarrow> (records, [Store_run cy])
            | Inl e \<Rightarrow>
                ([[(''error'', PStr (''Query execution failed: '' @ e))]], [Store_run cy])))"

text \<open>\<open>any("error" in result for result in results)\<close>: membership among the keys of a row.\<close>

definition any_error :: "row list \<Rightarrow> bool" where
  "any_error results = list_ex (\<lambda>result. ''error'' \<in> set (map fst result)) results"

text \<open>\<open>[str(v) for v in result.values() if v is not None]\<close>.\<close>

definition row_values :: "row \<Rightarrow> string list" where
  "row_values result = map py_str (filter (\<lambda>v. v \<noteq> PNone) (map snd result))"

text \<open>The loop of \<open>_format_results\<close> over \<open>results[:10]\<close>, appending to \<open>formatted_lines\<close>.\<close>

fun format_loop :: "row list \<Rightarrow> string list \<Rightarrow> string list" where
  "format_loop [] formatted_lines = formatted_lines"
| "format_loop (result # rest) formatted_lines =
     (if result \<noteq> [] then
        (let values = row_values result in
         if values \<noteq> [] then format_loop rest (formatted_lines @ [py_join '' | '' values])
         else format_loop rest formatted_lines)
      else format_loop rest formatted_lines)"

definition format_results :: "string \<Rightarrow> row list \<Rightarrow> string \<Rightarrow> string" where
  "format_results question results descr =
     (case results of
        [] \<Rightarrow> ''No results found.''
      | first # _ \<Rightarrow>
          if any_error results then
            ''Error executing query: '' @
              (case map_of first ''error'' of Some v \<Rightarrow> py_str v | None \<Rightarrow> ''Unknown error'')
          else
            (let formatted_lines = format_loop (take 10 results) [] in
             if formatted_lines \<noteq> [] then
               ''Found '' @ str_nat (length results) @ '' result(s):\<newline>'' @
                 py_join ''\<newline>'' formatted_lines
             else ''Results found but no displayable data.''))"

text \<open>The prompt sent to the language model on the fallback path.\<close>

definition llm_prompt :: "string \<Rightarrow> string" where
  "llm_prompt question =
     ''Write ONLY a Cypher query. No explanations or text.\<newline>\<newline>Question: '' @ question @
     ''\<newline>\<newline>Schema: Project, Stakeholder, Role, Feature, Functional_Requirement, Domain_Knowledge, Qual_Scenario\<newline>'' @
     ''Relations: HAS_STAKEHOLDER, PLAYS_ROLE, HAS_DOMAIN_KNOWLEDGE, HAS_FUNCTIONAL_REQUIREMENT, RAISED_BY, SATISFIED_BY\<newline>\<newline>Query:''"

text \<open>The four dicts that \<open>query\<close> returns.\<close>

definition template_response ::
  "string \<Rightarrow> string \<Rightarrow> real \<Rightarrow> string \<Rightarrow> row list \<Rightarrow> string \<Rightarrow> response" where
  "template_response question template_key similarity cy results answer =
     [(''question'', VStr question), (''method'', VStr ''template''),
      (''template_used'', VStr template_key), (''similarity'', VNum similarity),
      (''cypher'', VStr cy), (''results'', VRows results), (''answer'', VStr answer),
      (''execution_time'', VStr ''< 1 second'')]"

definition llm_response :: "string \<Rightarrow> real \<Rightarrow> string \<Rightarrow> row list \<Rightarrow> string \<Rightarrow> response" where
  "llm_response question similarity cy results answer =
     [(''question'', VStr question), (''method'', VStr ''llm_fallback''),
      (''template_used'', VNone), (''similarity'', VNum similarity),
      (''cypher'', VStr cy), (''results'', VRows results), (''answer'', VStr answer),
      (''execution_time'', VStr ''3-5 seconds'')]"

definition error_response :: "string \<Rightarrow> string \<Rightarrow> response" where
  "error_response question e =
     [(''question'', VStr question), (''method'', VStr ''error''),
      (''error'', VStr (''LLM fallback failed: '' @ e)),
      (''answer'', VStr ''Sorry, I couldn't process your question.'')]"

definition no_match_response :: "'v library \<Rightarrow> string \<Rightarrow> string \<Rightarrow> real \<Rightarrow> response" where
  "no_match_response lib question template_key similarity =
     [(''question'', VStr question), (''method'', VStr ''no_match''),
      (''template_used'', VStr template_key), (''similarity'', VNum similarity),
      (''answer'', VStr (''No good template match (similarity: '' @ format_3f lib similarity @
         ''). Try rephrasing your question or asking about: stakeholders, requirements, features, or domain knowledge.''))]"

text \<open>
  \<open>query(question, similarity_threshold)\<close>: the dict returned (or the exception that
  leaves the method) and the calls made to the store and to the language model, in order.
  \<open>find_best_template\<close> is called with its default threshold.
\<close>

definition query ::
  "'v library \<Rightarrow> 'v FastHybridRAG \<Rightarrow> string \<Rightarrow> real \<Rightarrow> (py_error + response) \<times> event list" where
  "query lib self question similarity_threshold =
     (case find_best_template lib self question (1 / 2) of
        Inl e \<Rightarrow> (Inl e, [])
      | Inr (template_key, similarity, template) \<Rightarrow>
          if similarity \<ge> similarity_threshold then
            (let cy = cypher template;
                 (results, evs) = execute_cypher self cy;
                 answer =
                   (if results \<noteq> [] \<and> \<not> any_error results
                    then format_results question results (description template)
                    else ''No results found or error: '' @ repr_rows lib results)
             in (Inr (template_response question template_key similarity cy results answer), evs))
          else
            (case llm self of
               Some invoke \<Rightarrow>
                 (case invoke (llm_prompt question) of
                    Inr text \<Rightarrow>
                      (let cy = str_strip lib text;
                           (results, evs) = execute_cypher self cy;
                           answer = format_results question results ''LLM generated query''
                       in (Inr (llm_response question similarity cy results answer),
                           Llm_invoke (llm_prompt question) # evs))
                  | Inl e \<Rightarrow>
                      (Inr (error_response question e), [Llm_invoke (llm_prompt question)]))
             | None \<Rightarrow>
                 (Inr (no_match_response lib question template_key similarity), [])))"

text \<open>Reading a field of a response: \<open>response.get(k)\<close>.\<close>

definition field :: "response \<Rightarrow> string \<Rightarrow> rval option" where
  "field r k = map_of r k"

section \<open>Notions used to state the properties\<close>

text \<open>The \<open>method\<close> label of the response, when \<open>query\<close> returns one.\<close>

definition method_of :: "(py_error + response) \<times> event list \<Rightarrow> string option" where
  "method_of res =
     (case fst res of
        Inl e \<Rightarrow> None
      | Inr r \<Rightarrow> (case field r ''method'' of Some (VStr m) \<Rightarrow> Some m | _ \<Rightarrow> None))"

text \<open>The answer text of the response, when \<open>query\<close> returns one.\<close>

definition answer_of :: "(py_error + response) \<times> event list \<Rightarrow> string option" where
  "answer_of res =
     (case fst res of
        Inl e \<Rightarrow> None
      | Inr r \<Rightarrow> (case field r ''answer'' of Some (VStr a) \<Rightarrow> Some a | _ \<Rightarrow> None))"

text \<open>The \<open>results\<close> entry of the response; \<open>None\<close> when the dict has no such key.\<close>

definition results_of :: "(py_error + response) \<times> event list \<Rightarrow> row list option" where
  "results_of res =
     (case fst res of
        Inl e \<Rightarrow> None
      | Inr r \<Rightarrow> (case field r ''results'' of Some (VRows rs) \<Rightarrow> Some rs | _ \<Rightarrow> None))"

text \<open>The \<open>cypher\<close> entry of the response: the query text that was resolved.\<close>

definition cypher_of :: "(py_error + response) \<times> event list \<Rightarrow> string option" where
  "cypher_of res =
     (case fst res of
        Inl e \<Rightarrow> None
      | Inr r \<Rightarrow> (case field r ''cypher'' of Some (VStr c) \<Rightarrow> Some c | _ \<Rightarrow> None))"

text \<open>The query texts sent to the graph store during a request, in order.\<close>

fun store_runs :: "event list \<Rightarrow> string list" where
  "store_runs [] = []"
| "store_runs (Store_run cy # evs) = cy # store_runs evs"
| "store_runs (Llm_invoke p # evs) = store_runs evs"

text \<open>
  The similarity of a question to one catalog entry: the cosine of the question's
  embedding and the embedding of \<open>key + " " + description\<close>.
\<close>

definition similarity_to ::
  "'v library \<Rightarrow> 'v FastHybridRAG \<Rightarrow> string \<Rightarrow> string \<times> template \<Rightarrow> real" where
  "similarity_to lib self question entry =
     cosine lib (embedding_model self question)
       (embedding_model self (fst entry @ '' '' @ description (snd entry)))"

text \<open>
  The store fails on a query: it was unreachable when the object was built, or it raises
  on this query. The value is the text that \<open>execute_cypher\<close> puts in its error row.
\<close>

definition store_failure :: "'v FastHybridRAG \<Rightarrow> string \<Rightarrow> string option" where
  "store_failure self cy =
     (if \<not> neo4j_available self then Some ''Neo4j not available''
      else (case graph self cy of
              Inl e \<Rightarrow> Some (''Query execution failed: '' @ e)
            | Inr records \<Rightarrow> None))"

text \<open>The rows among the first ten that have a value other than \<open>None\<close> to display.\<close>

definition displayed_rows :: "row list \<Rightarrow> row list" where
  "displayed_rows results = filter (\<lambda>result. row_values result \<noteq> []) (take 10 results)"

text \<open>The catalog with the query text of every template replaced.\<close>

definition replace_cypher ::
  "(string \<Rightarrow> template \<Rightarrow> string) \<Rightarrow> 'v FastHybridRAG \<Rightarrow> 'v FastHybridRAG" where
  "replace_cypher g self =
     self\<lparr>query_templates := map (\<lambda>(k, t). (k, t\<lparr>cypher := g k t\<rparr>)) (query_templates self)\<rparr>"

section \<open>A small catalog for concrete runs\<close>

text \<open>
  Two templates; the question \<open>who are the stakeholders\<close> scores 0.8 against the first
  and every other pair scores 0.1. The store knows the query \<open>Q1\<close> (two rows) and
  \<open>Q2\<close> (no row) and rejects every other text.
  The texts stripped here have spaces as their only whitespace, so \<open>demo_strip\<close>, which
  removes the spaces at both ends, stands for \<open>str.strip\<close>.
\<close>

definition demo_strip :: "string \<Rightarrow> string" where
  "demo_strip s =
     rev (dropWhile (\<lambda>c. c = CHR '' '') (rev (dropWhile (\<lambda>c. c = CHR '' '') s)))"

definition demo_lib :: "string library" where
  "demo_lib =
     \<lparr>cosine = (\<lambda>q t. if q = ''who are the stakeholders'' \<and>
                            t = ''list all stakeholders Get all stakeholders''
                         then 4 / 5 else 1 / 10),
      repr_str = (\<lambda>s. [CHR 0x27] @ s @ [CHR 0x27]),
      format_3f = (\<lambda>x. if x = 4 / 5 then ''0.800'' else ''0.100''),
      str_strip = demo_strip\<rparr>"

definition demo_catalog :: "(string \<times> template) list" where
  "demo_catalog =
     [(''list all stakeholders'', \<lparr>cypher = ''Q1'', description = ''Get all stakeholders''\<rparr>),
      (''show all features'', \<lparr>cypher = ''Q2'', description = ''Get features list''\<rparr>)]"

definition demo_graph :: "string \<Rightarrow> string + row list" where
  "demo_graph cy =
     (if cy = ''Q1'' then Inr [[(''s.name'', PStr ''Ann'')], [(''s.name'', PStr ''Bob'')]]
      else if cy = ''Q2'' then Inr []
      else Inl ''Invalid input'')"

definition demo_new :: "string FastHybridRAG" where
  "demo_new =
     \<lparr>embedding_model = (\<lambda>s. s), graph = demo_graph, llm = None, neo4j_available = True,
      query_templates = demo_catalog, template_keys = [], template_embeddings = []\<rparr>"

definition demo :: "string FastHybridRAG" where
  "demo =
     demo_new\<lparr>template_keys := [''list all stakeholders'', ''show all features''],
              template_embeddings :=
                [''list all stakeholders Get all stakeholders'',
                 ''show all features Get features list'']\<rparr>"

text \<open>The same object with a language model that answers every prompt with \<open>Q2\<close>.\<close>

definition demo_with_llm :: "string FastHybridRAG" where
  "demo_with_llm = demo\<lparr>llm := Some (\<lambda>p. Inr ''  Q2 '')\<rparr>"

text \<open>The same object with a language model that cannot be reached.\<close>

definition demo_llm_down :: "string FastHybridRAG" where
  "demo_llm_down = demo\<lparr>llm := Some (\<lambda>p. Inl ''connection refused'')\<rparr>"

text \<open>The same object with a store that rejects every query.\<close>

definition demo_store_rejects :: "string FastHybridRAG" where
  "demo_store_rejects = demo_with_llm\<lparr>graph := (\<lambda>cy. Inl ''Invalid input'')\<rparr>"

text \<open>The same object with a store in which no query matches a row.\<close>

definition demo_empty_store :: "string FastHybridRAG" where
  "demo_empty_store = demo_with_llm\<lparr>graph := (\<lambda>cy. Inr [])\<rparr>"

text \<open>The same object with a store whose rows have a column named \<open>error\<close>.\<close>

definition demo_error_column :: "string FastHybridRAG" where
  "demo_error_column =
     demo_with_llm\<lparr>graph := (\<lambda>cy. Inr [[(''id'', PInt 7)], [(''error'', PStr ''disk full'')]])\<rparr>"

section \<open>The maximum found by \<open>np.argmax\<close>\<close>

text \<open>
  Invariant of the scan: \<open>pre\<close> is the part of the array already seen, \<open>b\<close> the index of
  its first maximum and \<open>v\<close> that maximum.
\<close>

lemma argmax_scan_spec:
  assumes "length pre = i" "b < i" "pre ! b = v"
    and "\<forall>j<i. pre ! j \<le> v" and "\<forall>j<b. pre ! j < v"
  shows "argmax_scan xs i b v < length (pre @ xs) \<and>
         (\<forall>j<length (pre @ xs). (pre @ xs) ! j \<le> (pre @ xs) ! argmax_scan xs i b v) \<and>
         (\<forall>j<argmax_scan xs i b v. (pre @ xs) ! j < (pre @ xs) ! argmax_scan xs i b v)"
  using assms
proof (induction xs arbitrary: pre i b v)
  case Nil
  then show ?case by simp
next
  case (Cons x xs)
  show ?case
  proof (cases "v < x")
    case True
    have a: "length (pre @ [x]) = Suc i" using Cons.prems by simp
    have b: "i < Suc i" by simp
    have c: "(pre @ [x]) ! i = x" using Cons.prems by (simp add: nth_append)
    have d: "\<forall>j<Suc i. (pre @ [x]) ! j \<le> x"
      using Cons.prems True by (auto simp: nth_append less_Suc_eq)
    have e: "\<forall>j<i. (pre @ [x]) ! j < x"
      using Cons.prems True by (auto simp: nth_append)
    from Cons.IH[OF a b c d e] True show ?thesis by simp
  next
    case False
    have a: "length (pre @ [x]) = Suc i" using Cons.prems by simp
    have b: "b < Suc i" using Cons.prems by simp
    have c: "(pre @ [x]) ! b = v" using Cons.prems by (simp add: nth_append)
    have d: "\<forall>j<Suc i. (pre @ [x]) ! j \<le> v"
      using Cons.prems False by (auto simp: nth_append less_Suc_eq)
    have e: "\<forall>j<b. (pre @ [x]) ! j < v"
      using Cons.prems by (auto simp: nth_append)
    from Cons.IH[OF a b c d e] False show ?thesis by simp
  qed
qed

lemma np_argmax_spec:
  assumes "xs \<noteq> []"
  shows "\<exists>i. np_argmax xs = Inr i \<and> i < length xs \<and>
             (\<forall>j<length xs. xs ! j \<le> xs ! i) \<and> (\<forall>j<i. xs ! j < xs ! i)"
proof -
  from assms obtain x rest where xs: "xs = x # rest" by (cases xs) auto
  have "argmax_scan rest 1 0 x < length ([x] @ rest) \<and>
         (\<forall>j<length ([x] @ rest). ([x] @ rest) ! j \<le> ([x] @ rest) ! argmax_scan rest 1 0 x) \<and>
         (\<forall>j<argmax_scan rest 1 0 x. ([x] @ rest) ! j < ([x] @ rest) ! argmax_scan rest 1 0 x)"
    by (rule argmax_scan_spec) auto
  then show ?thesis by (simp add: xs np_argmax_def)
qed

section \<open>Auxiliary facts\<close>

lemma dict_get_entry:
  assumes "distinct (map fst d)" "(k, v) \<in> set d"
  shows "dict_get d k = Inr v"
  using assms by (simp add: dict_get_def)

lemma template_texts_of_entries:
  assumes "distinct (map fst qt)" "set es \<subseteq> set qt"
  shows "template_texts_of qt (map fst es) =
         Inr (map (\<lambda>e. fst e @ '' '' @ description (snd e)) es)"
  using assms(2)
proof (induction es)
  case Nil
  then show ?case by simp
next
  case (Cons e es)
  obtain k t where e: "e = (k, t)" by (cases e)
  with Cons.prems have "(k, t) \<in> set qt" by simp
  then have "dict_get qt k = Inr t" using assms(1) by (rule dict_get_entry[rotated])
  moreover have "template_texts_of qt (map fst es) =
         Inr (map (\<lambda>e. fst e @ '' '' @ description (snd e)) es)"
    using Cons by simp
  ultimately show ?case by (simp add: e)
qed

lemma setup_embeddings_result:
  assumes "distinct (map fst (query_templates self0))"
  shows "setup_embeddings self0 =
     Some (self0\<lparr>template_keys := map fst (query_templates self0),
                 template_embeddings :=
                   map (\<lambda>e. embedding_model self0 (fst e @ '' '' @ description (snd e)))
                     (query_templates self0)\<rparr>)"
  using template_texts_of_entries[OF assms, of "query_templates self0"]
  by (simp add: setup_embeddings_def Let_def comp_def)

lemma demo_setup: "setup_embeddings demo_new = Some demo"
  by (simp add: setup_embeddings_def demo_new_def demo_def demo_catalog_def dict_get_def)

lemma demo_best_who:
  "find_best_template demo_lib demo ''who are the stakeholders'' t =
     Inr (''list all stakeholders'', 4 / 5, \<lparr>cypher = ''Q1'', description = ''Get all stakeholders''\<rparr>)"
  by (simp add: find_best_template_def similarities_of_def demo_def demo_new_def demo_lib_def
      demo_catalog_def np_argmax_def list_get_def dict_get_def)

lemma demo_best_other:
  "find_best_template demo_lib demo ''compute the weighted average'' t =
     Inr (''list all stakeholders'', 1 / 10, \<lparr>cypher = ''Q1'', description = ''Get all stakeholders''\<rparr>)"
  by (simp add: find_best_template_def similarities_of_def demo_def demo_new_def demo_lib_def
      demo_catalog_def np_argmax_def list_get_def dict_get_def)

lemma query_template_path:
  assumes "find_best_template lib self question (1 / 2) = Inr (k, s, t)" "thr \<le> s"
  shows "query lib self question thr =
     (Inr (template_response question k s (cypher t) (fst (execute_cypher self (cypher t)))
            (if fst (execute_cypher self (cypher t)) \<noteq> [] \<and>
                \<not> any_error (fst (execute_cypher self (cypher t)))
             then format_results question (fst (execute_cypher self (cypher t))) (description t)
             else ''No results found or error: '' @
                    repr_rows lib (fst (execute_cypher self (cypher t))))),
      snd (execute_cypher self (cypher t)))"
  using assms by (simp add: query_def Let_def split_beta)

lemma query_generated:
  assumes "find_best_template lib self question (1 / 2) = Inr (k, s, t)" "s < thr"
    and "llm self = Some invoke" "invoke (llm_prompt question) = Inr text"
  shows "query lib self question thr =
     (Inr (llm_response question s (str_strip lib text) (fst (execute_cypher self (str_strip lib text)))
            (format_results question (fst (execute_cypher self (str_strip lib text)))
               ''LLM generated query'')),
      Llm_invoke (llm_prompt question) # snd (execute_cypher self (str_strip lib text)))"
  using assms by (simp add: query_def Let_def split_beta)

lemma query_generation_raises:
  assumes "find_best_template lib self question (1 / 2) = Inr (k, s, t)" "s < thr"
    and "llm self = Some invoke" "invoke (llm_prompt question) = Inl e"
  shows "query lib self question thr =
     (Inr (error_response question e), [Llm_invoke (llm_prompt question)])"
  using assms by (simp add: query_def)

lemma query_no_llm:
  assumes "find_best_template lib self question (1 / 2) = Inr (k, s, t)" "s < thr"
    and "llm self = None"
  shows "query lib self question thr = (Inr (no_match_response lib question k s), [])"
  using assms by (simp add: query_def)

lemma query_raises:
  assumes "find_best_template lib self question (1 / 2) = Inl e"
  shows "query lib self question thr = (Inl e, [])"
  using assms by (simp add: query_def)

lemma template_response_fields:
  "method_of (Inr (template_response q k s cy rows a), evs) = Some ''template''"
  "answer_of (Inr (template_response q k s cy rows a), evs) = Some a"
  "results_of (Inr (template_response q k s cy rows a), evs) = Some rows"
  "field (template_response q k s cy rows a) ''cypher'' = Some (VStr cy)"
  "field (template_response q k s cy rows a) ''template_used'' = Some (VStr k)"
  "field (template_response q k s cy rows a) ''similarity'' = Some (VNum s)"
  by (simp_all add: method_of_def answer_of_def results_of_def field_def template_response_def)

lemma llm_response_fields:
  "method_of (Inr (llm_response q s cy rows a), evs) = Some ''llm_fallback''"
  "answer_of (Inr (llm_response q s cy rows a), evs) = Some a"
  "results_of (Inr (llm_response q s cy rows a), evs) = Some rows"
  "field (llm_response q s cy rows a) ''cypher'' = Some (VStr cy)"
  by (simp_all add: method_of_def answer_of_def results_of_def field_def llm_response_def)

lemma error_response_fields:
  "method_of (Inr (error_response q e), evs) = Some ''error''"
  "answer_of (Inr (error_response q e), evs) = Some ''Sorry, I couldn't process your question.''"
  "results_of (Inr (error_response q e), evs) = None"
  "field (error_response q e) ''results'' = None"
  "field (error_response q e) ''error'' = Some (VStr (''LLM fallback failed: '' @ e))"
  by (simp_all add: method_of_def answer_of_def results_of_def field_def error_response_def)

lemma no_match_response_fields:
  "method_of (Inr (no_match_response lib q k s), evs) = Some ''no_match''"
  "results_of (Inr (no_match_response lib q k s), evs) = None"
  "field (no_match_response lib q k s) ''results'' = None"
  by (simp_all add: method_of_def answer_of_def results_of_def field_def no_match_response_def)

lemma method_of_raise: "method_of (Inl e, evs) = None"
  by (simp add: method_of_def)

lemma store_runs_execute_cypher:
  "store_runs (snd (execute_cypher self cy)) = (if neo4j_available self then [cy] else [])"
  by (simp add: execute_cypher_def split: sum.splits)

text \<open>The fallback branch: every label it can report.\<close>

lemma query_fallback_methods:
  assumes "find_best_template lib self question (1 / 2) = Inr (k, s, t)" "s < thr"
  shows "method_of (query lib self question thr) \<in>
           {Some ''llm_fallback'', Some ''error'', Some ''no_match''}"
proof (cases "llm self")
  case None
  with assms show ?thesis by (simp add: query_no_llm no_match_response_fields)
next
  case (Some invoke)
  show ?thesis
  proof (cases "invoke (llm_prompt question)")
    case (Inl e)
    with assms Some show ?thesis by (simp add: query_generation_raises error_response_fields)
  next
    case (Inr out)
    with assms Some show ?thesis by (simp add: query_generated llm_response_fields)
  qed
qed

lemma query_method_template_iff:
  assumes "find_best_template lib self question (1 / 2) = Inr (k, s, t)"
  shows "method_of (query lib self question thr) = Some ''template'' \<longleftrightarrow> thr \<le> s"
proof (cases "thr \<le> s")
  case True
  with assms show ?thesis by (simp add: query_template_path template_response_fields)
next
  case False
  then have "s < thr" by simp
  from query_fallback_methods[OF assms this] False show ?thesis by auto
qed

lemma response_cypher_rows:
  "cypher_of (Inr (template_response q k s cy rows a), evs) = Some cy"
  "cypher_of (Inr (llm_response q s cy rows a), evs) = Some cy"
  by (simp_all add: cypher_of_def field_def template_response_def llm_response_def)

lemma error_response_keys:
  "map fst (error_response q e) = [''question'', ''method'', ''error'', ''answer'']"
  by (simp add: error_response_def)

lemma map_of_map_entry:
  "map_of (map (\<lambda>(k, t). (k, h k t)) xs) key = map_option (h key) (map_of xs key)"
  by (induction xs) auto

lemma execute_cypher_replace_cypher:
  "execute_cypher (replace_cypher g self) cy = execute_cypher self cy"
  by (simp add: execute_cypher_def replace_cypher_def)

lemma find_best_template_replace_cypher:
  assumes "find_best_template lib self question t0 = Inr (k, s, t)"
  shows "find_best_template lib (replace_cypher g self) question t0 =
           Inr (k, s, t\<lparr>cypher := g k t\<rparr>)"
  using assms
  by (auto simp: find_best_template_def similarities_of_def replace_cypher_def dict_get_def
      map_of_map_entry Let_def split: sum.splits option.splits)

lemma query_fallback_replace_cypher:
  assumes "find_best_template lib self question (1 / 2) = Inr (k, s, t)" "s < thr"
  shows "query lib (replace_cypher g self) question thr = query lib self question thr"
proof -
  have r: "find_best_template lib (replace_cypher g self) question (1 / 2) =
             Inr (k, s, t\<lparr>cypher := g k t\<rparr>)"
    using assms(1) by (rule find_best_template_replace_cypher)
  have l: "llm (replace_cypher g self) = llm self" by (simp add: replace_cypher_def)
  show ?thesis
    using assms r l
    by (simp add: query_def execute_cypher_replace_cypher split: option.splits sum.splits)
qed

lemma query_fallback_store_runs:
  assumes "find_best_template lib self question (1 / 2) = Inr (k, s, t)" "s < thr"
  shows "store_runs (snd (query lib self question thr)) =
           (case llm self of
              None \<Rightarrow> []
            | Some invoke \<Rightarrow>
                (case invoke (llm_prompt question) of
                   Inl e \<Rightarrow> []
                 | Inr out \<Rightarrow> if neo4j_available self then [str_strip lib out] else []))"
proof (cases "llm self")
  case None
  with assms show ?thesis by (simp add: query_no_llm)
next
  case (Some invoke)
  show ?thesis
  proof (cases "invoke (llm_prompt question)")
    case (Inl e)
    with assms Some show ?thesis by (simp add: query_generation_raises)
  next
    case (Inr out)
    with assms Some show ?thesis by (simp add: query_generated store_runs_execute_cypher)
  qed
qed

lemma demo_with_llm_best_who:
  "find_best_template demo_lib demo_with_llm ''who are the stakeholders'' t =
     Inr (''list all stakeholders'', 4 / 5, \<lparr>cypher = ''Q1'', description = ''Get all stakeholders''\<rparr>)"
  by (simp add: find_best_template_def similarities_of_def demo_with_llm_def demo_def demo_new_def
      demo_lib_def demo_catalog_def np_argmax_def list_get_def dict_get_def)

lemma demo_with_llm_best_other:
  "find_best_template demo_lib demo_with_llm ''compute the weighted average'' t =
     Inr (''list all stakeholders'', 1 / 10, \<lparr>cypher = ''Q1'', description = ''Get all stakeholders''\<rparr>)"
  by (simp add: find_best_template_def similarities_of_def demo_with_llm_def demo_def demo_new_def
      demo_lib_def demo_catalog_def np_argmax_def list_get_def dict_get_def)

lemma demo_strip_out: "str_strip demo_lib ''  Q2 '' = ''Q2''"
  by (simp add: demo_lib_def demo_strip_def)

lemma demo_execute:
  "execute_cypher demo ''Q1'' =
     ([[(''s.name'', PStr ''Ann'')], [(''s.name'', PStr ''Bob'')]], [Store_run ''Q1''])"
  "execute_cypher demo_with_llm ''Q1'' =
     ([[(''s.name'', PStr ''Ann'')], [(''s.name'', PStr ''Bob'')]], [Store_run ''Q1''])"
  "execute_cypher demo_with_llm ''Q2'' = ([], [Store_run ''Q2''])"
  by (simp_all add: execute_cypher_def demo_with_llm_def demo_def demo_new_def demo_graph_def)

lemma demo_llm_down_best_other:
  "find_best_template demo_lib demo_llm_down ''compute the weighted average'' t =
     Inr (''list all stakeholders'', 1 / 10, \<lparr>cypher = ''Q1'', description = ''Get all stakeholders''\<rparr>)"
  by (simp add: find_best_template_def similarities_of_def demo_llm_down_def demo_def demo_new_def
      demo_lib_def demo_catalog_def np_argmax_def list_get_def dict_get_def)

lemma find_best_template_graph_update:
  "find_best_template lib (self\<lparr>graph := g\<rparr>) question t0 = find_best_template lib self question t0"
  by (simp add: find_best_template_def similarities_of_def Let_def cong: sum.case_cong)

lemma execute_cypher_failure:
  assumes "store_failure self cy = Some m"
  shows "fst (execute_cypher self cy) = [[(''error'', PStr m)]]"
  using assms by (auto simp: store_failure_def execute_cypher_def split: if_splits sum.splits)

lemma any_error_error_row: "any_error [[(''error'', v)]]"
  by (simp add: any_error_def)

lemma format_results_error_row:
  "format_results question [[(''error'', PStr m)]] descr = ''Error executing query: '' @ m"
  by (simp add: format_results_def any_error_def)

lemma execute_cypher_rows:
  assumes "neo4j_available self" "graph self cy = Inr rows"
  shows "execute_cypher self cy = (rows, [Store_run cy])"
  using assms by (simp add: execute_cypher_def)

lemma repr_rows_Nil: "repr_rows lib [] = ''[]''"
  by (simp add: repr_rows_def)

lemma format_results_Nil: "format_results question [] descr = ''No results found.''"
  by (simp add: format_results_def)

lemma any_error_Nil: "\<not> any_error []"
  by (simp add: any_error_def)

lemma demo_variants_best:
  "find_best_template demo_lib demo_store_rejects ''who are the stakeholders'' t0 =
     Inr (''list all stakeholders'', 4 / 5, \<lparr>cypher = ''Q1'', description = ''Get all stakeholders''\<rparr>)"
  "find_best_template demo_lib demo_store_rejects ''compute the weighted average'' t0 =
     Inr (''list all stakeholders'', 1 / 10, \<lparr>cypher = ''Q1'', description = ''Get all stakeholders''\<rparr>)"
  "find_best_template demo_lib demo_empty_store ''who are the stakeholders'' t0 =
     Inr (''list all stakeholders'', 4 / 5, \<lparr>cypher = ''Q1'', description = ''Get all stakeholders''\<rparr>)"
  "find_best_template demo_lib demo_empty_store ''compute the weighted average'' t0 =
     Inr (''list all stakeholders'', 1 / 10, \<lparr>cypher = ''Q1'', description = ''Get all stakeholders''\<rparr>)"
  "find_best_template demo_lib demo_error_column ''who are the stakeholders'' t0 =
     Inr (''list all stakeholders'', 4 / 5, \<lparr>cypher = ''Q1'', description = ''Get all stakeholders''\<rparr>)"
  "find_best_template demo_lib demo_error_column ''compute the weighted average'' t0 =
     Inr (''list all stakeholders'', 1 / 10, \<lparr>cypher = ''Q1'', description = ''Get all stakeholders''\<rparr>)"
  by (simp_all add: demo_store_rejects_def demo_empty_store_def demo_error_column_def
      find_best_template_graph_update demo_with_llm_best_who demo_with_llm_best_other)

lemma demo_variants_attrs:
  "llm demo_store_rejects = Some (\<lambda>p. Inr ''  Q2 '')"
  "llm demo_empty_store = Some (\<lambda>p. Inr ''  Q2 '')"
  "llm demo_error_column = Some (\<lambda>p. Inr ''  Q2 '')"
  "neo4j_available demo_store_rejects"
  "neo4j_available demo_empty_store"
  "neo4j_available demo_error_column"
  "graph demo_store_rejects cy = Inl ''Invalid input''"
  "graph demo_empty_store cy = Inr []"
  "graph demo_error_column cy = Inr [[(''id'', PInt 7)], [(''error'', PStr ''disk full'')]]"
  by (simp_all add: demo_store_rejects_def demo_empty_store_def demo_error_column_def
      demo_with_llm_def demo_def demo_new_def)

lemma demo_store_rejects_failure:
  "store_failure demo_store_rejects cy = Some ''Query execution failed: Invalid input''"
  by (simp add: store_failure_def demo_variants_attrs)

lemma format_loop_filter:
  "format_loop rs acc =
     acc @ map (\<lambda>r. py_join '' | '' (row_values r)) (filter (\<lambda>r. row_values r \<noteq> []) rs)"
proof (induction rs arbitrary: acc)
  case Nil
  then show ?case by simp
next
  case (Cons r rs)
  show ?case
  proof (cases "r = []")
    case True
    then show ?thesis by (simp add: Cons.IH row_values_def)
  next
    case False
    then show ?thesis by (simp add: Cons.IH Let_def)
  qed
qed

lemma format_loop_displayed:
  "format_loop (take 10 results) [] =
     map (\<lambda>r. py_join '' | '' (row_values r)) (displayed_rows results)"
  by (simp add: format_loop_filter displayed_rows_def)

lemma length_displayed_rows: "length (displayed_rows results) \<le> 10"
proof -
  have "length (displayed_rows results) \<le> length (take 10 results)"
    unfolding displayed_rows_def by (rule length_filter_le)
  then show ?thesis by simp
qed

lemma format_results_nonempty:
  assumes "results \<noteq> []"
  shows "format_results question results descr =
     (if any_error results then
        ''Error executing query: '' @
          (case map_of (hd results) ''error'' of Some v \<Rightarrow> py_str v | None \<Rightarrow> ''Unknown error'')
      else
        (let formatted_lines = format_loop (take 10 results) [] in
         if formatted_lines \<noteq> [] then
           ''Found '' @ str_nat (length results) @ '' result(s):\<newline>'' @
             py_join ''\<newline>'' formatted_lines
         else ''Results found but no displayable data.''))"
proof -
  from assms obtain first rest where c: "results = first # rest" by (cases results) auto
  show ?thesis unfolding format_results_def c by (simp only: list.case list.sel)
qed

lemma format_results_rows:
  assumes "results \<noteq> []" "\<not> any_error results"
  shows "format_results question results descr =
     (if displayed_rows results = [] then ''Results found but no displayable data.''
      else ''Found '' @ str_nat (length results) @ '' result(s):\<newline>'' @
           py_join ''\<newline>'' (map (\<lambda>r. py_join '' | '' (row_values r)) (displayed_rows results)))"
  using assms(2)
  by (simp add: format_results_nonempty[OF assms(1)] format_loop_displayed Let_def)

lemma any_error_iff:
  "any_error results \<longleftrightarrow> (\<exists>row\<in>set results. ''error'' \<in> fst ` set row)"
  by (simp add: any_error_def list_ex_iff)

lemma format_results_any_error:
  assumes "any_error results"
  shows "format_results question results descr =
     ''Error executing query: '' @
       (case map_of (hd results) ''error'' of Some v \<Rightarrow> py_str v | None \<Rightarrow> ''Unknown error'')"
proof -
  from assms have "results \<noteq> []" by (auto simp: any_error_def)
  from format_results_nonempty[OF this] assms show ?thesis by simp
qed

lemma str_nat_2: "str_nat (Suc (Suc 0)) = ''2''"
  by (simp add: str_nat.simps digit_char_def)

lemma demo_rows_displayed:
  "displayed_rows [[(''s.name'', PStr ''Ann'')], [(''s.name'', PStr ''Bob'')]] =
     [[(''s.name'', PStr ''Ann'')], [(''s.name'', PStr ''Bob'')]]"
  by (simp add: displayed_rows_def row_values_def)

section \<open>Matching a question to a template\<close>

text \<open>
  Claim C6. For an object built by \<open>_setup_embeddings\<close> from a catalog that is not empty
  (its keys distinct, as the keys of a dict are), \<open>find_best_template\<close> returns the key,
  the score and the template of a catalog entry whose similarity to the question is the
  maximum over the catalog; every entry before it in catalog order has a strictly
  smaller similarity, so among entries that tie for the maximum the first inserted wins.
\<close>

theorem find_best_template_first_maximum:
  assumes built: "setup_embeddings self0 = Some self"
    and dict: "distinct (map fst (query_templates self0))"
    and nonempty: "query_templates self0 \<noteq> []"
  shows "\<exists>i. i < length (query_templates self) \<and>
          find_best_template lib self question threshold =
            Inr (fst (query_templates self ! i),
                 similarity_to lib self question (query_templates self ! i),
                 snd (query_templates self ! i)) \<and>
          (\<forall>j<length (query_templates self).
             similarity_to lib self question (query_templates self ! j)
               \<le> similarity_to lib self question (query_templates self ! i)) \<and>
          (\<forall>j<i. similarity_to lib self question (query_templates self ! j)
               < similarity_to lib self question (query_templates self ! i))"
proof -
  let ?qt = "query_templates self0"
  let ?sim = "similarity_to lib self question"
  from built setup_embeddings_result[OF dict]
  have self: "self = self0\<lparr>template_keys := map fst ?qt,
                 template_embeddings :=
                   map (\<lambda>e. embedding_model self0 (fst e @ '' '' @ description (snd e))) ?qt\<rparr>"
    by simp
  have qt: "query_templates self = ?qt" by (simp add: self)
  have keys: "template_keys self = map fst ?qt" by (simp add: self)
  have sims: "similarities_of lib self question = map ?sim ?qt"
    by (simp add: self similarities_of_def similarity_to_def)
  have "map ?sim ?qt \<noteq> []" using nonempty by simp
  from np_argmax_spec[OF this] obtain i where
    am: "np_argmax (map ?sim ?qt) = Inr i" and i: "i < length ?qt"
    and mx: "\<forall>j<length ?qt. ?sim (?qt ! j) \<le> ?sim (?qt ! i)"
    and first: "\<forall>j<i. ?sim (?qt ! j) < ?sim (?qt ! i)"
    by auto
  have "(fst (?qt ! i), snd (?qt ! i)) \<in> set ?qt" using i by simp
  then have get: "dict_get ?qt (fst (?qt ! i)) = Inr (snd (?qt ! i))"
    using dict by (rule dict_get_entry[rotated])
  have "find_best_template lib self question threshold =
          Inr (fst (?qt ! i), ?sim (?qt ! i), snd (?qt ! i))"
    using am i get by (simp add: find_best_template_def sims keys qt list_get_def)
  with i mx first show ?thesis unfolding qt by blast
qed

theorem find_best_template_first_maximum_witness:
  "setup_embeddings demo_new = Some demo \<and>
   distinct (map fst (query_templates demo_new)) \<and>
   query_templates demo_new \<noteq> [] \<and>
   similarity_to demo_lib demo ''compute the weighted average'' (query_templates demo ! 0) =
     similarity_to demo_lib demo ''compute the weighted average'' (query_templates demo ! 1) \<and>
   find_best_template demo_lib demo ''compute the weighted average'' (1 / 2) =
     Inr (''list all stakeholders'', 1 / 10,
          \<lparr>cypher = ''Q1'', description = ''Get all stakeholders''\<rparr>)"
proof -
  let ?q = "''compute the weighted average''"
  have h1: "setup_embeddings demo_new = Some demo" by (rule demo_setup)
  have h2: "distinct (map fst (query_templates demo_new))"
    by (simp add: demo_new_def demo_catalog_def)
  have h3: "query_templates demo_new \<noteq> []"
    by (simp add: demo_new_def demo_catalog_def)
  have qt: "query_templates demo = demo_catalog" by (simp add: demo_def demo_new_def)
  have s0: "similarity_to demo_lib demo ?q (demo_catalog ! 0) = 1 / 10"
    by (simp add: similarity_to_def demo_lib_def demo_catalog_def demo_def demo_new_def)
  have s1: "similarity_to demo_lib demo ?q (demo_catalog ! 1) = 1 / 10"
    by (simp add: similarity_to_def demo_lib_def demo_catalog_def demo_def demo_new_def)
  from find_best_template_first_maximum[OF h1 h2 h3, of demo_lib ?q "1 / 2"]
  obtain i where i: "i < length demo_catalog"
    and r: "find_best_template demo_lib demo ?q (1 / 2) =
              Inr (fst (demo_catalog ! i), similarity_to demo_lib demo ?q (demo_catalog ! i),
                   snd (demo_catalog ! i))"
    and first: "\<forall>j<i. similarity_to demo_lib demo ?q (demo_catalog ! j)
                  < similarity_to demo_lib demo ?q (demo_catalog ! i)"
    unfolding qt by blast
  have "i = 0 \<or> i = 1" using i by (auto simp: demo_catalog_def)
  then have i0: "i = 0"
  proof
    assume "i = 0" then show ?thesis .
  next
    assume "i = 1"
    with first have "similarity_to demo_lib demo ?q (demo_catalog ! 0)
                  < similarity_to demo_lib demo ?q (demo_catalog ! 1)" by simp
    with s0 s1 show ?thesis by simp
  qed
  have "find_best_template demo_lib demo ?q (1 / 2) =
     Inr (''list all stakeholders'', 1 / 10,
          \<lparr>cypher = ''Q1'', description = ''Get all stakeholders''\<rparr>)"
    using r s0 unfolding i0 by (simp add: demo_catalog_def)
  with h1 h2 h3 s0 s1 show ?thesis by (simp add: qt)
qed

text \<open>
  Claim C10. The result of \<open>find_best_template\<close> does not depend on its \<open>threshold\<close>
  parameter: for every question and any two thresholds the key, the score and the
  template returned (or the exception raised) are the same.
\<close>

theorem find_best_template_threshold_irrelevant:
  "find_best_template lib self question t1 = find_best_template lib self question t2"
  by (simp add: find_best_template_def)

section \<open>Routing a question\<close>

text \<open>
  Claim C1. When \<open>find_best_template\<close> returns a match, \<open>query\<close> reports method
  \<open>template\<close> exactly when the score is at least the threshold. On that path the query
  resolved and executed is the matched template's query text: the response's \<open>cypher\<close>
  and \<open>results\<close> and the calls to the store are those of \<open>execute_cypher\<close> on it.
  When the score is strictly below the threshold a fallback label is reported, the only
  text ever sent to the store is the stripped output of the language model, and the
  whole outcome is the same whatever query texts the catalog holds: the template's
  query is not read.
\<close>

theorem query_template_path_iff_threshold:
  assumes "find_best_template lib self question (1 / 2) = Inr (k, s, t)"
  shows "(method_of (query lib self question thr) = Some ''template'' \<longleftrightarrow> thr \<le> s) \<and>
         (thr \<le> s \<longrightarrow>
            cypher_of (query lib self question thr) = Some (cypher t) \<and>
            results_of (query lib self question thr) = Some (fst (execute_cypher self (cypher t))) \<and>
            snd (query lib self question thr) = snd (execute_cypher self (cypher t))) \<and>
         (s < thr \<longrightarrow>
            method_of (query lib self question thr) \<in>
              {Some ''llm_fallback'', Some ''error'', Some ''no_match''} \<and>
            store_runs (snd (query lib self question thr)) =
              (case llm self of
                 None \<Rightarrow> []
               | Some invoke \<Rightarrow>
                   (case invoke (llm_prompt question) of
                      Inl e \<Rightarrow> []
                    | Inr out \<Rightarrow> if neo4j_available self then [str_strip lib out] else [])) \<and>
            query lib (replace_cypher g self) question thr = query lib self question thr)"
proof (intro conjI impI)
  show "method_of (query lib self question thr) = Some ''template'' \<longleftrightarrow> thr \<le> s"
    using assms by (rule query_method_template_iff)
next
  assume "thr \<le> s"
  with assms show "cypher_of (query lib self question thr) = Some (cypher t)"
    by (simp add: query_template_path response_cypher_rows)
next
  assume "thr \<le> s"
  with assms show "results_of (query lib self question thr) =
      Some (fst (execute_cypher self (cypher t)))"
    by (simp add: query_template_path template_response_fields)
next
  assume "thr \<le> s"
  with assms show "snd (query lib self question thr) = snd (execute_cypher self (cypher t))"
    by (simp add: query_template_path)
next
  assume "s < thr"
  with assms show "method_of (query lib self question thr) \<in>
              {Some ''llm_fallback'', Some ''error'', Some ''no_match''}"
    by (rule query_fallback_methods)
next
  assume "s < thr"
  with assms show "store_runs (snd (query lib self question thr)) =
              (case llm self of
                 None \<Rightarrow> []
               | Some invoke \<Rightarrow>
                   (case invoke (llm_prompt question) of
                      Inl e \<Rightarrow> []
                    | Inr out \<Rightarrow> if neo4j_available self then [str_strip lib out] else []))"
    by (rule query_fallback_store_runs)
next
  assume "s < thr"
  with assms show "query lib (replace_cypher g self) question thr = query lib self question thr"
    by (rule query_fallback_replace_cypher)
qed

theorem query_template_path_iff_threshold_witness:
  "find_best_template demo_lib demo_with_llm ''who are the stakeholders'' (1 / 2) =
     Inr (''list all stakeholders'', 4 / 5,
          \<lparr>cypher = ''Q1'', description = ''Get all stakeholders''\<rparr>) \<and>
   (1 / 2 :: real) \<le> 4 / 5 \<and>
   method_of (query demo_lib demo_with_llm ''who are the stakeholders'' (1 / 2)) = Some ''template'' \<and>
   cypher_of (query demo_lib demo_with_llm ''who are the stakeholders'' (1 / 2)) = Some ''Q1'' \<and>
   snd (query demo_lib demo_with_llm ''who are the stakeholders'' (1 / 2)) = [Store_run ''Q1''] \<and>
   (4 / 5 :: real) < 9 / 10 \<and>
   method_of (query demo_lib demo_with_llm ''who are the stakeholders'' (9 / 10)) \<noteq> Some ''template'' \<and>
   store_runs (snd (query demo_lib demo_with_llm ''who are the stakeholders'' (9 / 10))) = [''Q2''] \<and>
   query demo_lib (replace_cypher (\<lambda>k t. ''Q2'') demo_with_llm) ''who are the stakeholders'' (9 / 10) =
     query demo_lib demo_with_llm ''who are the stakeholders'' (9 / 10)"
proof -
  let ?q = "''who are the stakeholders''"
  have h: "find_best_template demo_lib demo_with_llm ?q (1 / 2) =
     Inr (''list all stakeholders'', 4 / 5,
          \<lparr>cypher = ''Q1'', description = ''Get all stakeholders''\<rparr>)"
    by (rule demo_with_llm_best_who)
  have l: "llm demo_with_llm = Some (\<lambda>p. Inr ''  Q2 '')"
    by (simp add: demo_with_llm_def)
  have n: "neo4j_available demo_with_llm"
    by (simp add: demo_with_llm_def demo_def demo_new_def)
  from query_template_path_iff_threshold[OF h, of "1 / 2"]
  have a: "method_of (query demo_lib demo_with_llm ?q (1 / 2)) = Some ''template''"
    "cypher_of (query demo_lib demo_with_llm ?q (1 / 2)) = Some ''Q1''"
    "snd (query demo_lib demo_with_llm ?q (1 / 2)) = [Store_run ''Q1'']"
    by (simp_all add: demo_execute)
  from query_template_path_iff_threshold[OF h, of "9 / 10" "\<lambda>k t. ''Q2''"]
  have b: "method_of (query demo_lib demo_with_llm ?q (9 / 10)) \<noteq> Some ''template''"
    "store_runs (snd (query demo_lib demo_with_llm ?q (9 / 10))) = [''Q2'']"
    "query demo_lib (replace_cypher (\<lambda>k t. ''Q2'') demo_with_llm) ?q (9 / 10) =
       query demo_lib demo_with_llm ?q (9 / 10)"
    by (simp_all add: l n demo_strip_out)
  from h a b show ?thesis by simp
qed

text \<open>
  Claim C7. The path decision is monotone in the threshold: for \<open>t1 \<le> t2\<close>, a question
  that takes the template path at \<open>t2\<close> takes it at \<open>t1\<close>, and a question that takes
  the fallback path at \<open>t1\<close> (one of the labels \<open>llm_fallback\<close>, \<open>error\<close>, \<open>no_match\<close>)
  takes it at \<open>t2\<close>.
\<close>

theorem query_path_monotone_in_threshold:
  assumes "t1 \<le> t2"
  shows "(method_of (query lib self question t2) = Some ''template'' \<longrightarrow>
            method_of (query lib self question t1) = Some ''template'') \<and>
         (method_of (query lib self question t1) \<in>
              {Some ''llm_fallback'', Some ''error'', Some ''no_match''} \<longrightarrow>
            method_of (query lib self question t2) \<in>
              {Some ''llm_fallback'', Some ''error'', Some ''no_match''})"
proof (cases "find_best_template lib self question (1 / 2)")
  case (Inl e)
  then show ?thesis by (simp add: query_raises method_of_raise)
next
  case (Inr m)
  obtain k s t where m: "m = (k, s, t)" by (cases m)
  have fbt: "find_best_template lib self question (1 / 2) = Inr (k, s, t)"
    using Inr m by simp
  have up: "method_of (query lib self question t2) = Some ''template'' \<longrightarrow>
            method_of (query lib self question t1) = Some ''template''"
    using assms by (simp add: query_method_template_iff[OF fbt])
  have down: "method_of (query lib self question t1) \<in>
              {Some ''llm_fallback'', Some ''error'', Some ''no_match''} \<longrightarrow>
            method_of (query lib self question t2) \<in>
              {Some ''llm_fallback'', Some ''error'', Some ''no_match''}"
  proof
    assume f: "method_of (query lib self question t1) \<in>
              {Some ''llm_fallback'', Some ''error'', Some ''no_match''}"
    then have "method_of (query lib self question t1) \<noteq> Some ''template''" by auto
    then have "\<not> t1 \<le> s" by (simp add: query_method_template_iff[OF fbt])
    with assms have "s < t2" by simp
    with fbt show "method_of (query lib self question t2) \<in>
              {Some ''llm_fallback'', Some ''error'', Some ''no_match''}"
      by (rule query_fallback_methods)
  qed
  from up down show ?thesis by simp
qed

theorem query_path_monotone_in_threshold_witness:
  "(3 / 10 :: real) \<le> 1 / 2 \<and>
   method_of (query demo_lib demo ''who are the stakeholders'' (1 / 2)) = Some ''template'' \<and>
   method_of (query demo_lib demo ''who are the stakeholders'' (3 / 10)) = Some ''template'' \<and>
   method_of (query demo_lib demo ''compute the weighted average'' (3 / 10)) = Some ''no_match'' \<and>
   method_of (query demo_lib demo ''compute the weighted average'' (1 / 2)) \<in>
     {Some ''llm_fallback'', Some ''error'', Some ''no_match''}"
proof -
  have le: "(3 / 10 :: real) \<le> 1 / 2" by simp
  have l: "llm demo = None" by (simp add: demo_def demo_new_def)
  have a: "method_of (query demo_lib demo ''who are the stakeholders'' (1 / 2)) = Some ''template''"
    by (simp add: query_method_template_iff[OF demo_best_who])
  have b: "method_of (query demo_lib demo ''compute the weighted average'' (3 / 10)) = Some ''no_match''"
    by (simp add: query_no_llm[OF demo_best_other _ l] no_match_response_fields)
  from query_path_monotone_in_threshold[OF le, of demo_lib demo "''who are the stakeholders''"] a
  have c: "method_of (query demo_lib demo ''who are the stakeholders'' (3 / 10)) = Some ''template''"
    by blast
  from query_path_monotone_in_threshold[OF le, of demo_lib demo "''compute the weighted average''"] b
  have d: "method_of (query demo_lib demo ''compute the weighted average'' (1 / 2)) \<in>
     {Some ''llm_fallback'', Some ''error'', Some ''no_match''}"
    by simp
  from le a b c d show ?thesis by blast
qed

text \<open>
  The label of a generated and executed query is \<open>llm_fallback\<close>, which is not one of
  \<open>template\<close>, \<open>fallback_generated\<close>, \<open>no_match\<close>, \<open>error\<close>.
\<close>

theorem query_method_not_in_spec_labels:
  "method_of (query demo_lib demo_with_llm ''compute the weighted average'' (1 / 2)) =
     Some ''llm_fallback'' \<and>
   ''llm_fallback'' \<notin> {''template'', ''fallback_generated'', ''no_match'', ''error''}"
proof -
  have l: "llm demo_with_llm = Some (\<lambda>p. Inr ''  Q2 '')"
    by (simp add: demo_with_llm_def)
  have "method_of (query demo_lib demo_with_llm ''compute the weighted average'' (1 / 2)) =
     Some ''llm_fallback''"
    by (simp add: query_generated[OF demo_with_llm_best_other _ l] llm_response_fields)
  then show ?thesis by simp
qed

text \<open>
  Claim C4, as the code has it. Every response that \<open>query\<close> returns has its method among
  \<open>template\<close>, \<open>llm_fallback\<close>, \<open>no_match\<close> and \<open>error\<close>; a question answered by
  generating a query with the language model and executing it reports \<open>llm_fallback\<close>,
  with the stripped generated text as its \<open>cypher\<close>.
\<close>

theorem query_method_labels:
  assumes "fst (query lib self question thr) = Inr r"
  shows "method_of (query lib self question thr) \<in>
           {Some ''template'', Some ''llm_fallback'', Some ''no_match'', Some ''error''} \<and>
         (find_best_template lib self question (1 / 2) = Inr (k, s, t) \<and> s < thr \<and>
          llm self = Some invoke \<and> invoke (llm_prompt question) = Inr out \<longrightarrow>
            method_of (query lib self question thr) = Some ''llm_fallback'' \<and>
            cypher_of (query lib self question thr) = Some (str_strip lib out) \<and>
            store_runs (snd (query lib self question thr)) =
              (if neo4j_available self then [str_strip lib out] else []))"
proof (intro conjI impI)
  show "method_of (query lib self question thr) \<in>
           {Some ''template'', Some ''llm_fallback'', Some ''no_match'', Some ''error''}"
  proof (cases "find_best_template lib self question (1 / 2)")
    case (Inl e)
    with assms show ?thesis by (simp add: query_raises)
  next
    case (Inr m)
    obtain k' s' t' where m: "m = (k', s', t')" by (cases m)
    have fbt: "find_best_template lib self question (1 / 2) = Inr (k', s', t')"
      using Inr m by simp
    show ?thesis
    proof (cases "thr \<le> s'")
      case True
      then show ?thesis by (simp add: query_method_template_iff[OF fbt])
    next
      case False
      then have "s' < thr" by simp
      from query_fallback_methods[OF fbt this] show ?thesis by auto
    qed
  qed
next
  assume h: "find_best_template lib self question (1 / 2) = Inr (k, s, t) \<and> s < thr \<and>
          llm self = Some invoke \<and> invoke (llm_prompt question) = Inr out"
  then show "method_of (query lib self question thr) = Some ''llm_fallback''"
    by (simp add: query_generated llm_response_fields)
  from h show "cypher_of (query lib self question thr) = Some (str_strip lib out)"
    by (simp add: query_generated response_cypher_rows)
  from h show "store_runs (snd (query lib self question thr)) =
              (if neo4j_available self then [str_strip lib out] else [])"
    by (simp add: query_generated store_runs_execute_cypher)
qed

theorem query_method_labels_witness:
  "fst (query demo_lib demo_with_llm ''compute the weighted average'' (1 / 2)) =
     Inr (llm_response ''compute the weighted average'' (1 / 10) ''Q2'' [] ''No results found.'') \<and>
   find_best_template demo_lib demo_with_llm ''compute the weighted average'' (1 / 2) =
     Inr (''list all stakeholders'', 1 / 10,
          \<lparr>cypher = ''Q1'', description = ''Get all stakeholders''\<rparr>) \<and>
   (1 / 10 :: real) < 1 / 2 \<and>
   llm demo_with_llm = Some (\<lambda>p. Inr ''  Q2 '') \<and>
   method_of (query demo_lib demo_with_llm ''compute the weighted average'' (1 / 2)) =
     Some ''llm_fallback'' \<and>
   cypher_of (query demo_lib demo_with_llm ''compute the weighted average'' (1 / 2)) = Some ''Q2'' \<and>
   store_runs (snd (query demo_lib demo_with_llm ''compute the weighted average'' (1 / 2))) = [''Q2'']"
proof -
  let ?q = "''compute the weighted average''"
  have l: "llm demo_with_llm = Some (\<lambda>p. Inr ''  Q2 '')"
    by (simp add: demo_with_llm_def)
  have n: "neo4j_available demo_with_llm"
    by (simp add: demo_with_llm_def demo_def demo_new_def)
  have h: "find_best_template demo_lib demo_with_llm ?q (1 / 2) =
     Inr (''list all stakeholders'', 1 / 10,
          \<lparr>cypher = ''Q1'', description = ''Get all stakeholders''\<rparr>)"
    by (rule demo_with_llm_best_other)
  have r: "fst (query demo_lib demo_with_llm ?q (1 / 2)) =
     Inr (llm_response ?q (1 / 10) ''Q2'' [] ''No results found.'')"
    by (simp add: query_generated[OF h _ l] demo_strip_out demo_execute format_results_def)
  from query_method_labels[OF r, of "''list all stakeholders''" "1 / 10"
      "\<lparr>cypher = ''Q1'', description = ''Get all stakeholders''\<rparr>" "\<lambda>p. Inr ''  Q2 ''" "''  Q2 ''"]
  have c: "method_of (query demo_lib demo_with_llm ?q (1 / 2)) = Some ''llm_fallback''"
    "cypher_of (query demo_lib demo_with_llm ?q (1 / 2)) = Some ''Q2''"
    "store_runs (snd (query demo_lib demo_with_llm ?q (1 / 2))) = [''Q2'']"
    using h l n by (simp_all add: demo_strip_out)
  from r h l c show ?thesis by simp
qed

text \<open>
  When the language model raises, the response has no \<open>results\<close> entry: the field is
  absent, not an empty sequence of rows.
\<close>

theorem query_generation_failure_no_results_key:
  "llm demo_llm_down = Some (\<lambda>p. Inl ''connection refused'') \<and>
   fst (query demo_lib demo_llm_down ''compute the weighted average'' (1 / 2)) =
     Inr (error_response ''compute the weighted average'' ''connection refused'') \<and>
   field (error_response ''compute the weighted average'' ''connection refused'') ''results'' =
     None \<and>
   results_of (query demo_lib demo_llm_down ''compute the weighted average'' (1 / 2)) \<noteq>
     Some []"
proof -
  have l: "llm demo_llm_down = Some (\<lambda>p. Inl ''connection refused'')"
    by (simp add: demo_llm_down_def)
  have q: "query demo_lib demo_llm_down ''compute the weighted average'' (1 / 2) =
     (Inr (error_response ''compute the weighted average'' ''connection refused''),
      [Llm_invoke (llm_prompt ''compute the weighted average'')])"
    by (simp add: query_generation_raises[OF demo_llm_down_best_other _ l])
  show ?thesis by (simp add: l q error_response_fields)
qed

text \<open>
  Claim C5, as the code has it. When the language model raises on the fallback path,
  \<open>query\<close> returns a response (no exception leaves the method) whose method is
  \<open>error\<close>. The response is the dict with the keys \<open>question\<close>, \<open>method\<close>, \<open>error\<close>
  and \<open>answer\<close>: it has no \<open>results\<close> entry, its \<open>error\<close> entry holds the message of
  the exception, and the store is not called.
\<close>

theorem query_generation_failure_isolated:
  assumes "find_best_template lib self question (1 / 2) = Inr (k, s, t)" and "s < thr"
    and "llm self = Some invoke" and "invoke (llm_prompt question) = Inl e"
  shows "fst (query lib self question thr) = Inr (error_response question e) \<and>
         method_of (query lib self question thr) = Some ''error'' \<and>
         map fst (error_response question e) = [''question'', ''method'', ''error'', ''answer''] \<and>
         field (error_response question e) ''results'' = None \<and>
         field (error_response question e) ''error'' = Some (VStr (''LLM fallback failed: '' @ e)) \<and>
         results_of (query lib self question thr) = None \<and>
         store_runs (snd (query lib self question thr)) = []"
  using assms
  by (simp add: query_generation_raises error_response_fields error_response_keys)

theorem query_generation_failure_isolated_witness:
  "find_best_template demo_lib demo_llm_down ''compute the weighted average'' (1 / 2) =
     Inr (''list all stakeholders'', 1 / 10,
          \<lparr>cypher = ''Q1'', description = ''Get all stakeholders''\<rparr>) \<and>
   (1 / 10 :: real) < 1 / 2 \<and>
   llm demo_llm_down = Some (\<lambda>p. Inl ''connection refused'') \<and>
   fst (query demo_lib demo_llm_down ''compute the weighted average'' (1 / 2)) =
     Inr (error_response ''compute the weighted average'' ''connection refused'') \<and>
   method_of (query demo_lib demo_llm_down ''compute the weighted average'' (1 / 2)) = Some ''error'' \<and>
   results_of (query demo_lib demo_llm_down ''compute the weighted average'' (1 / 2)) = None \<and>
   store_runs (snd (query demo_lib demo_llm_down ''compute the weighted average'' (1 / 2))) = []"
proof -
  let ?q = "''compute the weighted average''"
  have h: "find_best_template demo_lib demo_llm_down ?q (1 / 2) =
     Inr (''list all stakeholders'', 1 / 10,
          \<lparr>cypher = ''Q1'', description = ''Get all stakeholders''\<rparr>)"
    by (rule demo_llm_down_best_other)
  have lt: "(1 / 10 :: real) < 1 / 2" by simp
  have l: "llm demo_llm_down = Some (\<lambda>p. Inl ''connection refused'')"
    by (simp add: demo_llm_down_def)
  have i: "(\<lambda>p. Inl ''connection refused'' :: string + string) (llm_prompt ?q) =
             Inl ''connection refused''" by simp
  from query_generation_failure_isolated[OF h lt l i] h lt l show ?thesis by simp
qed

section \<open>Store failures and empty results\<close>

text \<open>
  A store that rejects the template's query does not make the method \<open>error\<close>: the
  response still reports \<open>template\<close>.
\<close>

theorem query_store_rejection_keeps_method:
  "store_failure demo_store_rejects ''Q1'' = Some ''Query execution failed: Invalid input'' \<and>
   cypher_of (query demo_lib demo_store_rejects ''who are the stakeholders'' (1 / 2)) = Some ''Q1'' \<and>
   method_of (query demo_lib demo_store_rejects ''who are the stakeholders'' (1 / 2)) =
     Some ''template'' \<and>
   method_of (query demo_lib demo_store_rejects ''who are the stakeholders'' (1 / 2)) \<noteq>
     Some ''error''"
  by (simp add: demo_store_rejects_failure query_template_path[OF demo_variants_best(1)]
      template_response_fields response_cypher_rows)

text \<open>
  Claim C2, as the code has it. When the store is unreachable or rejects the query that
  the router executes, \<open>query\<close> still returns a response and no exception leaves it. The
  method is the path taken (\<open>template\<close> or \<open>llm_fallback\<close>), the results are the single
  error row holding the failure text (\<open>Query execution failed:\<close> followed by the backend's
  message, or \<open>Neo4j not available\<close>), and the answer surfaces it: on the fallback path
  \<open>Error executing query:\<close> followed by that text, on the template path
  \<open>No results found or error:\<close> followed by the \<open>repr\<close> of the error row. The store is
  called at most once: the query is not retried.
\<close>

theorem query_store_failure_recovered:
  assumes "find_best_template lib self question (1 / 2) = Inr (k, s, t)"
  shows "(thr \<le> s \<and> store_failure self (cypher t) = Some m \<longrightarrow>
            method_of (query lib self question thr) = Some ''template'' \<and>
            results_of (query lib self question thr) = Some [[(''error'', PStr m)]] \<and>
            answer_of (query lib self question thr) =
              Some (''No results found or error: '' @ repr_rows lib [[(''error'', PStr m)]]) \<and>
            store_runs (snd (query lib self question thr)) =
              (if neo4j_available self then [cypher t] else [])) \<and>
         (s < thr \<and> llm self = Some invoke \<and> invoke (llm_prompt question) = Inr out \<and>
          store_failure self (str_strip lib out) = Some m \<longrightarrow>
            method_of (query lib self question thr) = Some ''llm_fallback'' \<and>
            results_of (query lib self question thr) = Some [[(''error'', PStr m)]] \<and>
            answer_of (query lib self question thr) = Some (''Error executing query: '' @ m) \<and>
            store_runs (snd (query lib self question thr)) =
              (if neo4j_available self then [str_strip lib out] else []))"
proof (intro conjI impI)
  assume h: "thr \<le> s \<and> store_failure self (cypher t) = Some m"
  then have r: "fst (execute_cypher self (cypher t)) = [[(''error'', PStr m)]]"
    by (simp add: execute_cypher_failure)
  from h show "method_of (query lib self question thr) = Some ''template''"
    using assms by (simp add: query_template_path template_response_fields)
  from h show "results_of (query lib self question thr) = Some [[(''error'', PStr m)]]"
    using assms by (simp add: query_template_path template_response_fields r)
  from h show "answer_of (query lib self question thr) =
              Some (''No results found or error: '' @ repr_rows lib [[(''error'', PStr m)]])"
    using assms by (simp add: query_template_path template_response_fields r any_error_error_row)
  from h show "store_runs (snd (query lib self question thr)) =
              (if neo4j_available self then [cypher t] else [])"
    using assms by (simp add: query_template_path store_runs_execute_cypher)
next
  assume h: "s < thr \<and> llm self = Some invoke \<and> invoke (llm_prompt question) = Inr out \<and>
          store_failure self (str_strip lib out) = Some m"
  then have r: "fst (execute_cypher self (str_strip lib out)) = [[(''error'', PStr m)]]"
    by (simp add: execute_cypher_failure)
  from h show "method_of (query lib self question thr) = Some ''llm_fallback''"
    using assms by (simp add: query_generated llm_response_fields)
  from h show "results_of (query lib self question thr) = Some [[(''error'', PStr m)]]"
    using assms by (simp add: query_generated llm_response_fields r)
  from h show "answer_of (query lib self question thr) = Some (''Error executing query: '' @ m)"
    using assms by (simp add: query_generated llm_response_fields r format_results_error_row)
  from h show "store_runs (snd (query lib self question thr)) =
              (if neo4j_available self then [str_strip lib out] else [])"
    using assms by (simp add: query_generated store_runs_execute_cypher)
qed

theorem query_store_failure_recovered_witness:
  "find_best_template demo_lib demo_store_rejects ''who are the stakeholders'' (1 / 2) =
     Inr (''list all stakeholders'', 4 / 5,
          \<lparr>cypher = ''Q1'', description = ''Get all stakeholders''\<rparr>) \<and>
   (1 / 2 :: real) \<le> 4 / 5 \<and>
   store_failure demo_store_rejects ''Q1'' = Some ''Query execution failed: Invalid input'' \<and>
   method_of (query demo_lib demo_store_rejects ''who are the stakeholders'' (1 / 2)) =
     Some ''template'' \<and>
   results_of (query demo_lib demo_store_rejects ''who are the stakeholders'' (1 / 2)) =
     Some [[(''error'', PStr ''Query execution failed: Invalid input'')]] \<and>
   store_runs (snd (query demo_lib demo_store_rejects ''who are the stakeholders'' (1 / 2))) =
     [''Q1''] \<and>
   find_best_template demo_lib demo_store_rejects ''compute the weighted average'' (1 / 2) =
     Inr (''list all stakeholders'', 1 / 10,
          \<lparr>cypher = ''Q1'', description = ''Get all stakeholders''\<rparr>) \<and>
   (1 / 10 :: real) < 1 / 2 \<and>
   store_failure demo_store_rejects ''Q2'' = Some ''Query execution failed: Invalid input'' \<and>
   method_of (query demo_lib demo_store_rejects ''compute the weighted average'' (1 / 2)) =
     Some ''llm_fallback'' \<and>
   answer_of (query demo_lib demo_store_rejects ''compute the weighted average'' (1 / 2)) =
     Some ''Error executing query: Query execution failed: Invalid input'' \<and>
   store_runs (snd (query demo_lib demo_store_rejects ''compute the weighted average'' (1 / 2))) =
     [''Q2'']"
proof -
  let ?m = "''Query execution failed: Invalid input''"
  note h1 = demo_variants_best(1)[of "1 / 2"]
  note h2 = demo_variants_best(2)[of "1 / 2"]
  from query_store_failure_recovered[OF h1, of "1 / 2" ?m]
  have a: "method_of (query demo_lib demo_store_rejects ''who are the stakeholders'' (1 / 2)) =
     Some ''template''"
    "results_of (query demo_lib demo_store_rejects ''who are the stakeholders'' (1 / 2)) =
     Some [[(''error'', PStr ?m)]]"
    "store_runs (snd (query demo_lib demo_store_rejects ''who are the stakeholders'' (1 / 2))) =
     [''Q1'']"
    by (simp_all add: demo_store_rejects_failure demo_variants_attrs)
  from query_store_failure_recovered[OF h2, of "1 / 2" ?m "\<lambda>p. Inr ''  Q2 ''" "''  Q2 ''"]
  have b: "method_of (query demo_lib demo_store_rejects ''compute the weighted average'' (1 / 2)) =
     Some ''llm_fallback''"
    "answer_of (query demo_lib demo_store_rejects ''compute the weighted average'' (1 / 2)) =
     Some ''Error executing query: Query execution failed: Invalid input''"
    "store_runs (snd (query demo_lib demo_store_rejects ''compute the weighted average'' (1 / 2))) =
     [''Q2'']"
    by (simp_all add: demo_store_rejects_failure demo_variants_attrs demo_strip_out)
  from h1 h2 a b show ?thesis by (simp add: demo_store_rejects_failure)
qed

text \<open>
  On the template path an empty result is answered with \<open>No results found or error: []\<close>,
  not with \<open>No results found.\<close>
\<close>

theorem query_empty_result_template_answer:
  "graph demo_empty_store ''Q1'' = Inr [] \<and>
   results_of (query demo_lib demo_empty_store ''who are the stakeholders'' (1 / 2)) = Some [] \<and>
   answer_of (query demo_lib demo_empty_store ''who are the stakeholders'' (1 / 2)) =
     Some ''No results found or error: []'' \<and>
   answer_of (query demo_lib demo_empty_store ''who are the stakeholders'' (1 / 2)) \<noteq>
     Some ''No results found.''"
  by (simp add: demo_variants_attrs query_template_path[OF demo_variants_best(3)]
      template_response_fields execute_cypher_rows repr_rows_Nil)

text \<open>
  Claim C3, as the code has it. When the executed query returns no row, the method is
  the path taken and the results are empty; the answer is exactly \<open>No results found.\<close>
  on the fallback path and exactly \<open>No results found or error: []\<close> on the template
  path, where a guard in \<open>query\<close> bypasses \<open>_format_results\<close> for an empty result.
\<close>

theorem query_empty_result_answer:
  assumes "find_best_template lib self question (1 / 2) = Inr (k, s, t)"
    and "neo4j_available self"
  shows "(thr \<le> s \<and> graph self (cypher t) = Inr [] \<longrightarrow>
            method_of (query lib self question thr) = Some ''template'' \<and>
            results_of (query lib self question thr) = Some [] \<and>
            answer_of (query lib self question thr) = Some ''No results found or error: []'') \<and>
         (s < thr \<and> llm self = Some invoke \<and> invoke (llm_prompt question) = Inr out \<and>
          graph self (str_strip lib out) = Inr [] \<longrightarrow>
            method_of (query lib self question thr) = Some ''llm_fallback'' \<and>
            results_of (query lib self question thr) = Some [] \<and>
            answer_of (query lib self question thr) = Some ''No results found.'')"
proof (intro conjI impI)
  assume h: "thr \<le> s \<and> graph self (cypher t) = Inr []"
  then have r: "execute_cypher self (cypher t) = ([], [Store_run (cypher t)])"
    using assms(2) by (simp add: execute_cypher_rows)
  from h show "method_of (query lib self question thr) = Some ''template''"
    using assms by (simp add: query_template_path template_response_fields)
  from h show "results_of (query lib self question thr) = Some []"
    using assms by (simp add: query_template_path template_response_fields r)
  from h show "answer_of (query lib self question thr) = Some ''No results found or error: []''"
    using assms by (simp add: query_template_path template_response_fields r repr_rows_Nil)
next
  assume h: "s < thr \<and> llm self = Some invoke \<and> invoke (llm_prompt question) = Inr out \<and>
          graph self (str_strip lib out) = Inr []"
  then have r: "execute_cypher self (str_strip lib out) = ([], [Store_run (str_strip lib out)])"
    using assms(2) by (simp add: execute_cypher_rows)
  from h show "method_of (query lib self question thr) = Some ''llm_fallback''"
    using assms by (simp add: query_generated llm_response_fields)
  from h show "results_of (query lib self question thr) = Some []"
    using assms by (simp add: query_generated llm_response_fields r)
  from h show "answer_of (query lib self question thr) = Some ''No results found.''"
    using assms by (simp add: query_generated llm_response_fields r format_results_Nil)
qed

theorem query_empty_result_answer_witness:
  "find_best_template demo_lib demo_empty_store ''who are the stakeholders'' (1 / 2) =
     Inr (''list all stakeholders'', 4 / 5,
          \<lparr>cypher = ''Q1'', description = ''Get all stakeholders''\<rparr>) \<and>
   neo4j_available demo_empty_store \<and>
   (1 / 2 :: real) \<le> 4 / 5 \<and> graph demo_empty_store ''Q1'' = Inr [] \<and>
   method_of (query demo_lib demo_empty_store ''who are the stakeholders'' (1 / 2)) =
     Some ''template'' \<and>
   answer_of (query demo_lib demo_empty_store ''who are the stakeholders'' (1 / 2)) =
     Some ''No results found or error: []'' \<and>
   find_best_template demo_lib demo_empty_store ''compute the weighted average'' (1 / 2) =
     Inr (''list all stakeholders'', 1 / 10,
          \<lparr>cypher = ''Q1'', description = ''Get all stakeholders''\<rparr>) \<and>
   (1 / 10 :: real) < 1 / 2 \<and> graph demo_empty_store ''Q2'' = Inr [] \<and>
   method_of (query demo_lib demo_empty_store ''compute the weighted average'' (1 / 2)) =
     Some ''llm_fallback'' \<and>
   answer_of (query demo_lib demo_empty_store ''compute the weighted average'' (1 / 2)) =
     Some ''No results found.''"
proof -
  note h1 = demo_variants_best(3)[of "1 / 2"]
  note h2 = demo_variants_best(4)[of "1 / 2"]
  note n = demo_variants_attrs(5)
  from query_empty_result_answer[OF h1 n, of "1 / 2"]
  have a: "method_of (query demo_lib demo_empty_store ''who are the stakeholders'' (1 / 2)) =
     Some ''template''"
    "answer_of (query demo_lib demo_empty_store ''who are the stakeholders'' (1 / 2)) =
     Some ''No results found or error: []''"
    by (simp_all add: demo_variants_attrs)
  from query_empty_result_answer[OF h2 n, of "1 / 2" "\<lambda>p. Inr ''  Q2 ''" "''  Q2 ''"]
  have b: "method_of (query demo_lib demo_empty_store ''compute the weighted average'' (1 / 2)) =
     Some ''llm_fallback''"
    "answer_of (query demo_lib demo_empty_store ''compute the weighted average'' (1 / 2)) =
     Some ''No results found.''"
    by (simp_all add: demo_variants_attrs demo_strip_out)
  from h1 h2 n a b show ?thesis by (simp add: demo_variants_attrs)
qed

section \<open>Formatting the rows\<close>

text \<open>
  A result that is not empty and has no error column, but no value to display: the
  answer is not prefixed with the row count.
\<close>

theorem format_results_no_displayable_data:
  "[[(''s.email'', PNone)]] \<noteq> [] \<and> \<not> any_error [[(''s.email'', PNone)]] \<and>
   format_results ''list the emails'' [[(''s.email'', PNone)]] ''Get emails'' =
     ''Results found but no displayable data.'' \<and>
   \<not> prefix ''Found 1 result(s):'' (format_results ''list the emails'' [[(''s.email'', PNone)]] ''Get emails'')"
  by (simp add: format_results_def any_error_def row_values_def)

text \<open>
  Claim C8, as the code has it. For a result that is not empty and has no error column,
  the rows displayed are those among the first ten that have a value other than
  \<open>None\<close>, so at most ten. When there is such a row the answer is
  \<open>Found n result(s):\<close> with \<open>n\<close> the total number of rows, followed by one line per
  displayed row, its values other than \<open>None\<close> joined by \<open>" | "\<close>; when there is none
  the answer is \<open>Results found but no displayable data.\<close> On both paths the response's
  \<open>results\<close> holds every row of the result, and the answer is that formatted text.
\<close>

theorem format_results_displays_first_ten:
  assumes "results \<noteq> []" and "\<not> any_error results"
  shows "length (displayed_rows results) \<le> 10 \<and>
         set (displayed_rows results) \<subseteq> set (take 10 results) \<and>
         format_results question results descr =
           (if displayed_rows results = [] then ''Results found but no displayable data.''
            else ''Found '' @ str_nat (length results) @ '' result(s):\<newline>'' @
                 py_join ''\<newline>''
                   (map (\<lambda>r. py_join '' | '' (row_values r)) (displayed_rows results))) \<and>
         (find_best_template lib self question (1 / 2) = Inr (k, s, t) \<and> thr \<le> s \<and>
          neo4j_available self \<and> graph self (cypher t) = Inr results \<longrightarrow>
            results_of (query lib self question thr) = Some results \<and>
            answer_of (query lib self question thr) =
              Some (format_results question results (description t))) \<and>
         (find_best_template lib self question (1 / 2) = Inr (k, s, t) \<and> s < thr \<and>
          llm self = Some invoke \<and> invoke (llm_prompt question) = Inr out \<and>
          neo4j_available self \<and> graph self (str_strip lib out) = Inr results \<longrightarrow>
            results_of (query lib self question thr) = Some results \<and>
            answer_of (query lib self question thr) =
              Some (format_results question results ''LLM generated query''))"
proof (intro conjI impI)
  show "length (displayed_rows results) \<le> 10" by (rule length_displayed_rows)
  show "set (displayed_rows results) \<subseteq> set (take 10 results)"
    by (auto simp: displayed_rows_def)
  show "format_results question results descr =
           (if displayed_rows results = [] then ''Results found but no displayable data.''
            else ''Found '' @ str_nat (length results) @ '' result(s):\<newline>'' @
                 py_join ''\<newline>''
                   (map (\<lambda>r. py_join '' | '' (row_values r)) (displayed_rows results)))"
    using assms by (rule format_results_rows)
next
  assume h: "find_best_template lib self question (1 / 2) = Inr (k, s, t) \<and> thr \<le> s \<and>
          neo4j_available self \<and> graph self (cypher t) = Inr results"
  then have r: "execute_cypher self (cypher t) = (results, [Store_run (cypher t)])"
    by (simp add: execute_cypher_rows)
  from h show "results_of (query lib self question thr) = Some results"
    by (simp add: query_template_path template_response_fields r)
  from h assms show "answer_of (query lib self question thr) =
              Some (format_results question results (description t))"
    by (simp add: query_template_path template_response_fields r)
next
  assume h: "find_best_template lib self question (1 / 2) = Inr (k, s, t) \<and> s < thr \<and>
          llm self = Some invoke \<and> invoke (llm_prompt question) = Inr out \<and>
          neo4j_available self \<and> graph self (str_strip lib out) = Inr results"
  then have r: "execute_cypher self (str_strip lib out) = (results, [Store_run (str_strip lib out)])"
    by (simp add: execute_cypher_rows)
  from h show "results_of (query lib self question thr) = Some results"
    by (simp add: query_generated llm_response_fields r)
  from h show "answer_of (query lib self question thr) =
              Some (format_results question results ''LLM generated query'')"
    by (simp add: query_generated llm_response_fields r)
qed

theorem format_results_displays_first_ten_witness:
  "[[(''s.name'', PStr ''Ann'')], [(''s.name'', PStr ''Bob'')]] \<noteq> [] \<and>
   \<not> any_error [[(''s.name'', PStr ''Ann'')], [(''s.name'', PStr ''Bob'')]] \<and>
   find_best_template demo_lib demo_with_llm ''who are the stakeholders'' (1 / 2) =
     Inr (''list all stakeholders'', 4 / 5,
          \<lparr>cypher = ''Q1'', description = ''Get all stakeholders''\<rparr>) \<and>
   (1 / 2 :: real) \<le> 4 / 5 \<and>
   neo4j_available demo_with_llm \<and>
   graph demo_with_llm ''Q1'' = Inr [[(''s.name'', PStr ''Ann'')], [(''s.name'', PStr ''Bob'')]] \<and>
   results_of (query demo_lib demo_with_llm ''who are the stakeholders'' (1 / 2)) =
     Some [[(''s.name'', PStr ''Ann'')], [(''s.name'', PStr ''Bob'')]] \<and>
   answer_of (query demo_lib demo_with_llm ''who are the stakeholders'' (1 / 2)) =
     Some ''Found 2 result(s):\<newline>Ann\<newline>Bob''"
proof -
  let ?rows = "[[(''s.name'', PStr ''Ann'')], [(''s.name'', PStr ''Bob'')]]"
  let ?q = "''who are the stakeholders''"
  let ?t = "\<lparr>cypher = ''Q1'', description = ''Get all stakeholders''\<rparr>"
  have ne: "?rows \<noteq> []" by simp
  have noerr: "\<not> any_error ?rows" by (simp add: any_error_def)
  have h: "find_best_template demo_lib demo_with_llm ?q (1 / 2) =
             Inr (''list all stakeholders'', 4 / 5, ?t)"
    by (rule demo_with_llm_best_who)
  have n: "neo4j_available demo_with_llm"
    by (simp add: demo_with_llm_def demo_def demo_new_def)
  have g: "graph demo_with_llm ''Q1'' = Inr ?rows"
    by (simp add: demo_with_llm_def demo_def demo_new_def demo_graph_def)
  from format_results_displays_first_ten[OF ne noerr,
      of ?q "''Get all stakeholders''" demo_lib demo_with_llm "''list all stakeholders''"
         "4 / 5" ?t "1 / 2"]
  have f: "format_results ?q ?rows ''Get all stakeholders'' = ''Found 2 result(s):\<newline>Ann\<newline>Bob''"
    and r: "results_of (query demo_lib demo_with_llm ?q (1 / 2)) = Some ?rows"
    and a: "answer_of (query demo_lib demo_with_llm ?q (1 / 2)) =
              Some (format_results ?q ?rows ''Get all stakeholders'')"
    using h n g by (simp_all add: demo_rows_displayed str_nat_2 row_values_def)
  from ne noerr h n g r a f show ?thesis by simp
qed

text \<open>
  Claim C9. A result is classified as an error by membership of the name \<open>error\<close> among
  the columns of some row. For such a result, returned by a query that executed
  successfully, the formatter returns the error-surfacing message (with
  \<open>Unknown error\<close> when the first row has no such column) instead of the rows, and on
  the template path the answer is the \<open>No results found or error:\<close> text followed by the
  \<open>repr\<close> of the rows, while the method stays \<open>template\<close> and the rows are returned.
\<close>

theorem query_error_column_is_failure:
  assumes "any_error results"
  shows "(\<exists>row\<in>set results. ''error'' \<in> fst ` set row) \<and>
         format_results question results descr =
           ''Error executing query: '' @
             (case map_of (hd results) ''error'' of
                Some v \<Rightarrow> py_str v | None \<Rightarrow> ''Unknown error'') \<and>
         (find_best_template lib self question (1 / 2) = Inr (k, s, t) \<and> thr \<le> s \<and>
          neo4j_available self \<and> graph self (cypher t) = Inr results \<longrightarrow>
            method_of (query lib self question thr) = Some ''template'' \<and>
            results_of (query lib self question thr) = Some results \<and>
            answer_of (query lib self question thr) =
              Some (''No results found or error: '' @ repr_rows lib results))"
proof (intro conjI impI)
  from assms show "\<exists>row\<in>set results. ''error'' \<in> fst ` set row"
    by (simp add: any_error_iff)
  from assms show "format_results question results descr =
           ''Error executing query: '' @
             (case map_of (hd results) ''error'' of
                Some v \<Rightarrow> py_str v | None \<Rightarrow> ''Unknown error'')"
    by (rule format_results_any_error)
next
  assume h: "find_best_template lib self question (1 / 2) = Inr (k, s, t) \<and> thr \<le> s \<and>
          neo4j_available self \<and> graph self (cypher t) = Inr results"
  then have r: "execute_cypher self (cypher t) = (results, [Store_run (cypher t)])"
    by (simp add: execute_cypher_rows)
  from h show "method_of (query lib self question thr) = Some ''template''"
    by (simp add: query_template_path template_response_fields)
  from h show "results_of (query lib self question thr) = Some results"
    by (simp add: query_template_path template_response_fields r)
  from h assms show "answer_of (query lib self question thr) =
              Some (''No results found or error: '' @ repr_rows lib results)"
    by (simp add: query_template_path template_response_fields r)
qed

theorem query_error_column_is_failure_witness:
  "any_error [[(''id'', PInt 7)], [(''error'', PStr ''disk full'')]] \<and>
   format_results ''who are the stakeholders''
       [[(''id'', PInt 7)], [(''error'', PStr ''disk full'')]] ''Get all stakeholders'' =
     ''Error executing query: Unknown error'' \<and>
   find_best_template demo_lib demo_error_column ''who are the stakeholders'' (1 / 2) =
     Inr (''list all stakeholders'', 4 / 5,
          \<lparr>cypher = ''Q1'', description = ''Get all stakeholders''\<rparr>) \<and>
   (1 / 2 :: real) \<le> 4 / 5 \<and>
   neo4j_available demo_error_column \<and>
   graph demo_error_column ''Q1'' = Inr [[(''id'', PInt 7)], [(''error'', PStr ''disk full'')]] \<and>
   method_of (query demo_lib demo_error_column ''who are the stakeholders'' (1 / 2)) =
     Some ''template'' \<and>
   results_of (query demo_lib demo_error_column ''who are the stakeholders'' (1 / 2)) =
     Some [[(''id'', PInt 7)], [(''error'', PStr ''disk full'')]] \<and>
   answer_of (query demo_lib demo_error_column ''who are the stakeholders'' (1 / 2)) =
     Some (''No results found or error: '' @
           repr_rows demo_lib [[(''id'', PInt 7)], [(''error'', PStr ''disk full'')]])"
proof -
  let ?rows = "[[(''id'', PInt 7)], [(''error'', PStr ''disk full'')]]"
  let ?q = "''who are the stakeholders''"
  let ?t = "\<lparr>cypher = ''Q1'', description = ''Get all stakeholders''\<rparr>"
  have e: "any_error ?rows" by (simp add: any_error_def)
  note h = demo_variants_best(5)[of "1 / 2"]
  note n = demo_variants_attrs(6)
  note g = demo_variants_attrs(9)[of "''Q1''"]
  from query_error_column_is_failure[OF e, of ?q "''Get all stakeholders''" demo_lib
      demo_error_column "''list all stakeholders''" "4 / 5" ?t "1 / 2"]
  have f: "format_results ?q ?rows ''Get all stakeholders'' = ''Error executing query: Unknown error''"
    and m: "method_of (query demo_lib demo_error_column ?q (1 / 2)) = Some ''template''"
    and r: "results_of (query demo_lib demo_error_column ?q (1 / 2)) = Some ?rows"
    and a: "answer_of (query demo_lib demo_error_column ?q (1 / 2)) =
              Some (''No results found or error: '' @ repr_rows demo_lib ?rows)"
    using h n g by simp_all
  from e f h n g m r a show ?thesis by simp
qed

end
